theory Spec2Isabelle
  imports Complex_Main "HOL-Library.AList"
begin

section \<open>JavaScript values and option objects\<close>

text \<open>
  The values that \<^verbatim>\<open>src/core/toast.ts\<close> inspects: identifiers are strings or
  numbers (a number may be \<^verbatim>\<open>NaN\<close> or infinite), option fields may be absent
  or \<^verbatim>\<open>undefined\<close>, contents, callbacks and container instances are references
  that are compared by identity. Finite numbers are reals: the code only tests them
  for truthiness, for \<^verbatim>\<open>NaN\<close> and for equality.
\<close>

datatype jsval =
    JUndefined
  | JNull
  | JBool bool
  | JNum real
  | JNaN
  | JInf bool
  | JStr string
  | JObj nat
  | JFun nat

text \<open>JavaScript's truthiness (\<^verbatim>\<open>!x\<close>, \<^verbatim>\<open>x || y\<close>, \<^verbatim>\<open>x && y\<close>, \<^verbatim>\<open>if (x)\<close>).\<close>

fun truthy :: "jsval \<Rightarrow> bool" where
  "truthy JUndefined = False"
| "truthy JNull = False"
| "truthy (JBool b) = b"
| "truthy (JNum r) = (r \<noteq> 0)"
| "truthy JNaN = False"
| "truthy (JInf b) = True"
| "truthy (JStr s) = (s \<noteq> [])"
| "truthy (JObj n) = True"
| "truthy (JFun n) = True"

text \<open>\<^verbatim>\<open>typeof x === 'string'\<close>, \<^verbatim>\<open>typeof x === 'number'\<close>, \<^verbatim>\<open>typeof x === 'function'\<close>.\<close>

fun is_string :: "jsval \<Rightarrow> bool" where
  "is_string (JStr s) = True"
| "is_string v = False"

fun is_number :: "jsval \<Rightarrow> bool" where
  "is_number (JNum r) = True"
| "is_number JNaN = True"
| "is_number (JInf b) = True"
| "is_number v = False"

fun is_function :: "jsval \<Rightarrow> bool" where
  "is_function (JFun n) = True"
| "is_function v = False"

text \<open>\<^verbatim>\<open>isNaN(x)\<close> on a value whose type is number.\<close>

definition isNaN :: "jsval \<Rightarrow> bool" where
  "isNaN v = (v = JNaN)"

text \<open>\<^verbatim>\<open>a || b\<close> on values.\<close>

definition js_or :: "jsval \<Rightarrow> jsval \<Rightarrow> jsval" where
  "js_or a b = (if truthy a then a else b)"

text \<open>\<^verbatim>\<open>a === b\<close>: \<^verbatim>\<open>NaN\<close> is not equal to itself, references by identity.\<close>

definition strict_eq :: "jsval \<Rightarrow> jsval \<Rightarrow> bool" where
  "strict_eq a b = (a = b \<and> a \<noteq> JNaN)"

text \<open>
  An options object is a finite map from property names to values; reading a property
  that is absent gives \<^verbatim>\<open>undefined\<close>. An options argument that was not passed
  (or is \<^verbatim>\<open>null\<close>) is \<open>None\<close>; spreading it copies nothing.
\<close>

type_synonym obj = "string \<rightharpoonup> jsval"

definition get_prop :: "obj \<Rightarrow> string \<Rightarrow> jsval" where
  "get_prop ob k = (case ob k of None \<Rightarrow> JUndefined | Some v \<Rightarrow> v)"

definition spread :: "obj option \<Rightarrow> obj" where
  "spread opts = (case opts of None \<Rightarrow> Map.empty | Some ob \<Rightarrow> ob)"

text \<open>\<^verbatim>\<open>options && options.k\<close> for an options argument that may be missing.\<close>

definition opt_prop :: "obj option \<Rightarrow> string \<Rightarrow> jsval" where
  "opt_prop opts k = (case opts of None \<Rightarrow> JUndefined | Some ob \<Rightarrow> get_prop ob k)"

section \<open>The module state of \<^verbatim>\<open>toast.ts\<close> and its environment\<close>

text \<open>A record held in a container's collection: \<^verbatim>\<open>{ content, options }\<close>.\<close>

record toast_rec =
  toast_content :: jsval
  toast_options :: obj

text \<open>
  A container instance as \<^verbatim>\<open>toast.ts\<close> uses it: its \<^verbatim>\<open>containerId\<close>, the
  lookup \<^verbatim>\<open>collection[toastId]\<close> (\<open>None\<close> for \<^verbatim>\<open>undefined\<close>), its method
  \<^verbatim>\<open>isToastActive\<close>, and the identity of the instance itself. The container
  component is not part of this module; it is handed in by the mount event.
\<close>

record container =
  containerId :: jsval
  collection :: "jsval \<Rightarrow> toast_rec option"
  isToastActive :: "jsval \<Rightarrow> bool"
  instance_ref :: nat

text \<open>A pending queue entry: \<^verbatim>\<open>{ action, content, options }\<close>.\<close>

record qitem =
  action :: jsval
  content :: jsval
  options :: obj

text \<open>One call of \<^verbatim>\<open>eventManager.emit(action, ...args)\<close>.\<close>

datatype arg = Val jsval | Opts obj

type_synonym event = "jsval \<times> arg list"

datatype error = NotFoundError

text \<open>
  The module variables (\<^verbatim>\<open>containers\<close>, \<^verbatim>\<open>latestInstance\<close>,
  \<^verbatim>\<open>containerDomNode\<close>, \<^verbatim>\<open>containerConfig\<close>, \<^verbatim>\<open>queue\<close>, \<^verbatim>\<open>lazy\<close>)
  followed by the environment the module acts on: the calls made to
  \<^verbatim>\<open>eventManager.emit\<close> in order, the listener table of the bus, the children of
  \<^verbatim>\<open>document.body\<close>, the number of nodes created, the number of identifiers
  generated, and the callbacks given to \<^verbatim>\<open>setTimeout\<close> that have not run yet.
  \<^verbatim>\<open>containers\<close> is a JavaScript \<^verbatim>\<open>Map\<close>: an association list with distinct
  keys in insertion order.
\<close>

record state =
  containers :: "(jsval \<times> container) list"
  latestInstance :: jsval
  containerDomNode :: "nat option"
  containerConfig :: "obj option"
  queue :: "qitem list"
  lazy :: bool
  emitted :: "event list"
  listeners :: "jsval \<Rightarrow> jsval list"
  body :: "nat list"
  created :: nat
  generated :: nat
  timers :: "(jsval \<times> obj) list"

text \<open>
  What the module imports and what the platform supplies: \<^verbatim>\<open>canUseDom\<close>,
  \<^verbatim>\<open>TYPE.DEFAULT\<close>, the action names \<^verbatim>\<open>ACTION.SHOW\<close> and \<^verbatim>\<open>ACTION.CLEAR\<close>
  (declared in \<^verbatim>\<open>../utils\<close>, which is not among the sources, so they are
  parameters), and the outcome of the \<open>n\<close>-th evaluation of
  \<^verbatim>\<open>(Math.random().toString(36) + Date.now().toString(36)).substr(2, 10)\<close>.
\<close>

record env =
  canUseDom :: bool
  TYPE_DEFAULT :: jsval
  ACTION_SHOW :: jsval
  ACTION_CLEAR :: jsval
  random_id :: "nat \<Rightarrow> string"

definition init :: state where
  "init = \<lparr> containers = [], latestInstance = JNull, containerDomNode = None,
            containerConfig = Some Map.empty, queue = [], lazy = False,
            emitted = [], listeners = (\<lambda>a. []), body = [], created = 0,
            generated = 0, timers = [] \<rparr>"

section \<open>The event bus\<close>

text \<open>
  Modelled from the spec: \<^verbatim>\<open>eventManager\<close> (in \<^verbatim>\<open>../utils\<close>) is not among the
  sources. Section 4.1 of the specification gives \<^verbatim>\<open>emit(action, ...args)\<close>,
  \<^verbatim>\<open>on(action, listener)\<close> and \<^verbatim>\<open>off(action, listener?)\<close>, where \<^verbatim>\<open>off\<close>
  without a listener removes all listeners for that action. Listeners are external
  callbacks; \<open>emit\<close> records the call in the trace \<open>emitted\<close>.
\<close>

definition emit :: "jsval \<Rightarrow> arg list \<Rightarrow> state \<Rightarrow> state" where
  "emit a args s = s\<lparr>emitted := emitted s @ [(a, args)]\<rparr>"

definition bus_on :: "jsval \<Rightarrow> jsval \<Rightarrow> state \<Rightarrow> state" where
  "bus_on a cb s = s\<lparr>listeners := (listeners s)(a := listeners s a @ [cb])\<rparr>"

definition bus_off :: "jsval \<Rightarrow> state \<Rightarrow> state" where
  "bus_off a s = s\<lparr>listeners := (listeners s)(a := [])\<rparr>"

section \<open>The functions of \<^verbatim>\<open>toast.ts\<close>\<close>

definition isAnyContainerMounted :: "state \<Rightarrow> bool" where
  "isAnyContainerMounted s = (length (containers s) > 0)"

text \<open>
  \<^verbatim>\<open>getContainer\<close>: \<open>None\<close> stands for both \<^verbatim>\<open>null\<close> and \<^verbatim>\<open>undefined\<close>,
  which its only caller tests with \<^verbatim>\<open>!container\<close>.
\<close>

definition getContainer :: "state \<Rightarrow> jsval \<Rightarrow> container option" where
  "getContainer s cid =
     (if \<not> isAnyContainerMounted s then None
      else if \<not> truthy cid then map_of (containers s) (latestInstance s)
      else map_of (containers s) cid)"

definition getToast :: "state \<Rightarrow> jsval \<Rightarrow> obj \<Rightarrow> toast_rec option" where
  "getToast s toastId opts =
     (case getContainer s (get_prop opts ''containerId'') of
        None \<Rightarrow> None
      | Some c \<Rightarrow> collection c toastId)"

definition generateToastId :: "env \<Rightarrow> state \<Rightarrow> jsval \<times> state" where
  "generateToastId E s = (JStr (random_id E (generated s)), s\<lparr>generated := Suc (generated s)\<rparr>)"

definition getToastId :: "env \<Rightarrow> state \<Rightarrow> obj option \<Rightarrow> jsval \<times> state" where
  "getToastId E s opts =
     (case opts of
        None \<Rightarrow> generateToastId E s
      | Some ob \<Rightarrow>
          if is_string (get_prop ob ''toastId'') \<or>
             (is_number (get_prop ob ''toastId'') \<and> \<not> isNaN (get_prop ob ''toastId''))
          then (get_prop ob ''toastId'', s)
          else generateToastId E s)"

definition mergeOptions :: "env \<Rightarrow> state \<Rightarrow> obj option \<Rightarrow> jsval \<Rightarrow> obj \<times> state" where
  "mergeOptions E s opts ty =
     (let (tid, s') = getToastId E s opts
      in (((spread opts)(''type'' \<mapsto> ty))(''toastId'' \<mapsto> tid), s'))"

definition dispatchToast :: "env \<Rightarrow> state \<Rightarrow> jsval \<Rightarrow> obj \<Rightarrow> jsval \<times> state" where
  "dispatchToast E s cont opts =
     (get_prop opts ''toastId'',
      if isAnyContainerMounted s then emit (JStr ''show'') [Val cont, Opts opts] s
      else
        (let s1 = s\<lparr>queue := queue s @ [\<lparr>action = JStr ''show'', content = cont, options = opts\<rparr>]\<rparr>
         in if lazy s1 \<and> canUseDom E
            then s1\<lparr>lazy := False, containerDomNode := Some (created s1),
                    body := body s1 @ [created s1], created := Suc (created s1)\<rparr>
            else s1))"

text \<open>
  \<^verbatim>\<open>toast\<close> and its shortcuts differ in the type they fall back to:
  \<^verbatim>\<open>(options && options.type) || TYPE[t]\<close>.
\<close>

definition toast_of_type :: "jsval \<Rightarrow> env \<Rightarrow> state \<Rightarrow> jsval \<Rightarrow> obj option \<Rightarrow> jsval \<times> state" where
  "toast_of_type ty E s cont opts =
     (let (merged, s') = mergeOptions E s opts (js_or (opt_prop opts ''type'') ty)
      in dispatchToast E s' cont merged)"

definition toast :: "env \<Rightarrow> state \<Rightarrow> jsval \<Rightarrow> obj option \<Rightarrow> jsval \<times> state" where
  "toast E s cont opts = toast_of_type (TYPE_DEFAULT E) E s cont opts"

text \<open>\<^verbatim>\<open>toast.dismiss\<close>; a call without argument has \<open>id = JUndefined\<close>.\<close>

definition toast_dismiss :: "state \<Rightarrow> jsval \<Rightarrow> state" where
  "toast_dismiss s tid =
     (if isAnyContainerMounted s then emit (JStr ''clear'') [Val tid] s else s)"

text \<open>
  \<^verbatim>\<open>toast.isActive\<close>: the loop over the registry sets the flag for every container
  that answers true. (The \<^verbatim>\<open>console.log\<close> in the loop is left out.)
\<close>

definition toast_isActive :: "state \<Rightarrow> jsval \<Rightarrow> bool" where
  "toast_isActive s tid =
     (if length (containers s) > 0
      then fold (\<lambda>(k, c) isActive. if isToastActive c tid then True else isActive)
             (containers s) False
      else False)"

text \<open>
  \<^verbatim>\<open>toast.update\<close> hands its body to \<^verbatim>\<open>setTimeout(..., 0)\<close>; the body is
  \<open>update_tick\<close>, run by \<open>run_timer\<close> when the timer fires. A missing
  \<^verbatim>\<open>options\<close> argument defaults to the empty object.
\<close>

definition update_tick :: "env \<Rightarrow> state \<Rightarrow> jsval \<Rightarrow> obj \<Rightarrow> state" where
  "update_tick E s toastId opts =
     (case getToast s toastId opts of
        None \<Rightarrow> s
      | Some t \<Rightarrow>
          (let nextOptions0 = (toast_options t ++ opts)
                 (''toastId'' \<mapsto> js_or (get_prop opts ''toastId'') toastId);
               (nextOptions1, s1) =
                 (if \<not> truthy (get_prop opts ''toastId'') \<or> strict_eq (get_prop opts ''toastId'') toastId
                  then (let (uid, s') = generateToastId E s
                        in (nextOptions0(''updateId'' \<mapsto> uid), s'))
                  else (nextOptions0(''staleToastId'' \<mapsto> toastId), s));
               cont = (if get_prop nextOptions1 ''render'' \<noteq> JUndefined
                       then get_prop nextOptions1 ''render'' else toast_content t);
               nextOptions2 = nextOptions1(''render'' := None)
           in snd (dispatchToast E s1 cont nextOptions2)))"

definition toast_update :: "state \<Rightarrow> jsval \<Rightarrow> obj option \<Rightarrow> state" where
  "toast_update s toastId opts = s\<lparr>timers := timers s @ [(toastId, spread opts)]\<rparr>"

definition run_timer :: "env \<Rightarrow> state \<Rightarrow> state" where
  "run_timer E s =
     (case timers s of
        [] \<Rightarrow> s
      | (toastId, opts) # rest \<Rightarrow> update_tick E (s\<lparr>timers := rest\<rparr>) toastId opts)"

definition toast_done :: "state \<Rightarrow> jsval \<Rightarrow> state" where
  "toast_done s tid = toast_update s tid (Some [''progress'' \<mapsto> JNum 1])"

definition toast_onChange :: "state \<Rightarrow> jsval \<Rightarrow> state" where
  "toast_onChange s callback =
     (if is_function callback then bus_on (JStr ''change'') callback s else s)"

definition toast_configure :: "state \<Rightarrow> obj option \<Rightarrow> state" where
  "toast_configure s config = s\<lparr>lazy := True, containerConfig := config\<rparr>"

text \<open>
  The listener on \<^verbatim>\<open>ACTION.DID_MOUNT\<close>. The registry key is
  \<^verbatim>\<open>containerInstance.containerId || containerInstance\<close>.
\<close>

definition container_key :: "container \<Rightarrow> jsval" where
  "container_key c = js_or (containerId c) (JObj (instance_ref c))"

definition on_DID_MOUNT :: "state \<Rightarrow> container \<Rightarrow> state" where
  "on_DID_MOUNT s ci =
     (let s1 = s\<lparr>latestInstance := container_key ci\<rparr>;
          s2 = s1\<lparr>containers := AList.update (latestInstance s1) ci (containers s1)\<rparr>;
          s3 = fold (\<lambda>item st. emit (action item) [Val (content item), Opts (options item)] st)
                 (queue s2) s2
      in s3\<lparr>queue := []\<rparr>)"

text \<open>
  The listener on \<^verbatim>\<open>ACTION.WILL_UNMOUNT\<close>; \<open>None\<close> is an event without a
  container instance. \<^verbatim>\<open>document.body.removeChild\<close> throws when the node is not
  a child of the body; what the listener did before stays done, so the result is
  the state together with the error, if any.
\<close>

definition on_WILL_UNMOUNT :: "env \<Rightarrow> state \<Rightarrow> container option \<Rightarrow> error option \<times> state" where
  "on_WILL_UNMOUNT E s ci =
     (let s1 = (case ci of
                  Some c \<Rightarrow> s\<lparr>containers := AList.delete (container_key c) (containers s)\<rparr>
                | None \<Rightarrow> s\<lparr>containers := []\<rparr>);
          s2 = (if length (containers s1) = 0
                then bus_off (ACTION_CLEAR E) (bus_off (ACTION_SHOW E) s1) else s1)
      in case containerDomNode s2 of
           Some node \<Rightarrow>
             if canUseDom E
             then (if node \<in> set (body s2)
                   then (None, s2\<lparr>body := remove1 node (body s2)\<rparr>)
                   else (Some NotFoundError, s2))
             else (None, s2)
         | None \<Rightarrow> (None, s2))"

section \<open>Observing what was dispatched\<close>

text \<open>
  The arguments of a \<^verbatim>\<open>show\<close> event are the content and the options. The two
  functions below read them off a recorded call of \<^verbatim>\<open>emit\<close>; \<open>entry_event\<close> is
  the call that replays a queue entry.
\<close>

fun event_options :: "event \<Rightarrow> obj" where
  "event_options (a, [Val c, Opts ob]) = ob"
| "event_options ev = Map.empty"

fun event_content :: "event \<Rightarrow> jsval" where
  "event_content (a, [Val c, Opts ob]) = c"
| "event_content ev = JUndefined"

definition entry_event :: "qitem \<Rightarrow> event" where
  "entry_event item = (action item, [Val (content item), Opts (options item)])"

section \<open>Sequences of calls\<close>

text \<open>
  A show call is \<^verbatim>\<open>toast\<close> or one of its shortcuts: the type it falls back to,
  the content and the options. \<open>toast_calls\<close> issues the calls of a list in order
  and collects the identifiers they return. \<open>show_entry\<close> is the queue entry that
  holds a call's content and its options, completed with the type and the
  identifier the call returned.
\<close>

type_synonym show_call = "jsval \<times> jsval \<times> obj option"

fun toast_calls :: "env \<Rightarrow> state \<Rightarrow> show_call list \<Rightarrow> jsval list \<times> state" where
  "toast_calls E s [] = ([], s)"
| "toast_calls E s ((ty, cont, opts) # cs) =
     (let (tid, s1) = toast_of_type ty E s cont opts;
          (tids, s2) = toast_calls E s1 cs
      in (tid # tids, s2))"

fun show_entry :: "show_call \<Rightarrow> jsval \<Rightarrow> qitem" where
  "show_entry (ty, cont, opts) tid =
     \<lparr>action = JStr ''show'', content = cont,
      options = (spread opts)(''type'' \<mapsto> js_or (opt_prop opts ''type'') ty,
                              ''toastId'' \<mapsto> tid)\<rparr>"

text \<open>
  Everything that can happen to the module: the public operations of \<^verbatim>\<open>toast\<close>,
  a timer firing, and the two bus events the module listens to.
\<close>

datatype op =
    Show jsval jsval "obj option"
  | Dismiss jsval
  | IsActive jsval
  | Update jsval "obj option"
  | Done jsval
  | OnChange jsval
  | Configure "obj option"
  | Tick
  | Mount container
  | Unmount "container option"

fun step :: "env \<Rightarrow> state \<Rightarrow> op \<Rightarrow> state" where
  "step E s (Show ty cont opts) = snd (toast_of_type ty E s cont opts)"
| "step E s (Dismiss tid) = toast_dismiss s tid"
| "step E s (IsActive tid) = s"
| "step E s (Update tid opts) = toast_update s tid opts"
| "step E s (Done tid) = toast_done s tid"
| "step E s (OnChange callback) = toast_onChange s callback"
| "step E s (Configure config) = toast_configure s config"
| "step E s Tick = run_timer E s"
| "step E s (Mount ci) = on_DID_MOUNT s ci"
| "step E s (Unmount ci) = snd (on_WILL_UNMOUNT E s ci)"

text \<open>The invariant of claim C9: a registered container means an empty queue.\<close>

definition queue_inv :: "state \<Rightarrow> bool" where
  "queue_inv s = (containers s \<noteq> [] \<longrightarrow> queue s = [])"

section \<open>The specification's wording, where it differs from the code\<close>

text \<open>
  Section 4.2 of the specification: \<^verbatim>\<open>resolve\<close> returns the caller-supplied value
  if it is a non-empty string or a well-formed number, otherwise a generated one.
\<close>

definition caller_id_accepted_spec :: "jsval \<Rightarrow> bool" where
  "caller_id_accepted_spec v =
     ((is_string v \<and> v \<noteq> JStr []) \<or> (is_number v \<and> \<not> isNaN v))"

definition resolve_spec :: "env \<Rightarrow> state \<Rightarrow> obj option \<Rightarrow> jsval" where
  "resolve_spec E s opts =
     (if caller_id_accepted_spec (opt_prop opts ''toastId'') then opt_prop opts ''toastId''
      else JStr (random_id E (generated s)))"

text \<open>
  Section 4.5 of the specification on \<^verbatim>\<open>update\<close>: the target identifier is
  \<^verbatim>\<open>options.toastId ?? identifier\<close>; if it equals the original, the dispatched
  options carry a fresh \<^verbatim>\<open>updateId\<close> and no \<^verbatim>\<open>staleToastId\<close>, otherwise they
  carry \<^verbatim>\<open>staleToastId = identifier\<close>. \<open>nullish_or\<close> is \<^verbatim>\<open>??\<close>.
\<close>

definition nullish_or :: "jsval \<Rightarrow> jsval \<Rightarrow> jsval" where
  "nullish_or a b = (if a = JUndefined \<or> a = JNull then b else a)"

definition update_stamps_spec :: "env \<Rightarrow> state \<Rightarrow> jsval \<Rightarrow> obj \<Rightarrow> obj \<Rightarrow> bool" where
  "update_stamps_spec E s toastId opts dispatched =
     (get_prop dispatched ''toastId'' = nullish_or (get_prop opts ''toastId'') toastId \<and>
      (if nullish_or (get_prop opts ''toastId'') toastId = toastId
       then dispatched ''updateId'' = Some (JStr (random_id E (generated s))) \<and>
            dispatched ''staleToastId'' = None
       else dispatched ''staleToastId'' = Some toastId))"

text \<open>
  Claim C10 in its own words, for an update whose \<^verbatim>\<open>options.toastId\<close> is 0 or the
  empty string: the dispatched options keep the original identifier, hold the fresh
  \<^verbatim>\<open>updateId\<close>, and hold no \<^verbatim>\<open>staleToastId\<close>.
\<close>

definition falsy_update_spec :: "env \<Rightarrow> state \<Rightarrow> jsval \<Rightarrow> obj \<Rightarrow> bool" where
  "falsy_update_spec E s toastId dispatched =
     (get_prop dispatched ''toastId'' = toastId \<and>
      dispatched ''updateId'' = Some (JStr (random_id E (generated s))) \<and>
      dispatched ''staleToastId'' = None)"

section \<open>Concrete inputs\<close>

definition env0 :: env where
  "env0 = \<lparr> canUseDom = True, TYPE_DEFAULT = JStr ''default'', ACTION_SHOW = JStr ''show'',
            ACTION_CLEAR = JStr ''clear'', random_id = (\<lambda>n. ''g'' @ replicate n CHR ''x'') \<rparr>"

text \<open>A container with identifier \<^verbatim>\<open>"box"\<close> that holds one record, under \<^verbatim>\<open>"a"\<close>.\<close>

definition hello_rec :: toast_rec where
  "hello_rec = \<lparr>toast_content = JStr ''hello'',
                toast_options = [''type'' \<mapsto> JStr ''info'', ''toastId'' \<mapsto> JStr ''a'']\<rparr>"

definition box :: container where
  "box = \<lparr> containerId = JStr ''box'',
           collection = (\<lambda>k. if k = JStr ''a'' then Some hello_rec else None),
           isToastActive = (\<lambda>k. k = JStr ''a''),
           instance_ref = 1 \<rparr>"

definition mounted :: state where
  "mounted = on_DID_MOUNT init box"

text \<open>
  A container without identifier whose record \<^verbatim>\<open>"m"\<close> still has the
  \<^verbatim>\<open>staleToastId\<close> of an earlier move among its options.
\<close>

definition moved_rec :: toast_rec where
  "moved_rec = \<lparr>toast_content = JStr ''moved'',
                toast_options = [''toastId'' \<mapsto> JStr ''m'', ''staleToastId'' \<mapsto> JStr ''old'']\<rparr>"

definition box2 :: container where
  "box2 = \<lparr> containerId = JUndefined,
            collection = (\<lambda>k. if k = JStr ''m'' then Some moved_rec else None),
            isToastActive = (\<lambda>k. k = JStr ''m''),
            instance_ref = 2 \<rparr>"

definition mounted2 :: state where
  "mounted2 = on_DID_MOUNT init box2"

text \<open>The state \<open>mounted\<close> after the container subscribed to both actions.\<close>

definition listening :: state where
  "listening = bus_on (JStr ''clear'') (JFun 8) (bus_on (JStr ''show'') (JFun 7) mounted)"

text \<open>Two show calls: \<^verbatim>\<open>toast("hi", {toastId: "a"})\<close> and \<^verbatim>\<open>toast.success("yo")\<close>.\<close>

definition two_calls :: "show_call list" where
  "two_calls = [(JStr ''default'', JStr ''hi'', Some [''toastId'' \<mapsto> JStr ''a'']),
                (JStr ''success'', JStr ''yo'', None)]"

section \<open>Auxiliary facts\<close>

lemma get_prop_simps [simp]:
  "get_prop (m(k \<mapsto> v)) k' = (if k' = k then v else get_prop m k')"
  "get_prop (m(k := None)) k' = (if k' = k then JUndefined else get_prop m k')"
  "get_prop Map.empty k' = JUndefined"
  by (simp_all add: get_prop_def)

lemma init_fields:
  "containers init = []" "timers init = []" "queue init = []" "emitted init = []"
  "generated init = 0" "lazy init = False"
  by (simp_all add: init_def)

lemma mounted_containers: "containers mounted = [(JStr ''box'', box)]"
  by (simp add: mounted_def on_DID_MOUNT_def init_def container_key_def js_or_def box_def Let_def)

lemma mounted_fields:
  "timers mounted = []" "emitted mounted = []" "queue mounted = []"
  "latestInstance mounted = JStr ''box''" "generated mounted = 0"
  by (simp_all add: mounted_def on_DID_MOUNT_def init_def container_key_def js_or_def box_def Let_def)

lemma mounted2_fields:
  "containers mounted2 = [(JObj 2, box2)]" "latestInstance mounted2 = JObj 2"
  "emitted mounted2 = []" "generated mounted2 = 0" "timers mounted2 = []" "queue mounted2 = []"
  by (simp_all add: mounted2_def on_DID_MOUNT_def init_def container_key_def js_or_def box2_def
      Let_def)

lemma fold_isActive:
  "fold (\<lambda>(k, c) isActive. if isToastActive c tid then True else isActive) cs b
     = (b \<or> (\<exists>(k, c) \<in> set cs. isToastActive c tid))"
  by (induction cs arbitrary: b) auto

lemma getToast_empty: "containers s = [] \<Longrightarrow> getToast s tid opts = None"
  by (simp add: getToast_def getContainer_def isAnyContainerMounted_def)

lemma getToast_mounted: "getToast s tid opts = Some t \<Longrightarrow> isAnyContainerMounted s"
  by (auto simp: getToast_def getContainer_def split: option.splits if_splits)

lemma getToast_cong:
  "containers s' = containers s \<Longrightarrow> latestInstance s' = latestInstance s \<Longrightarrow>
   getToast s' tid opts = getToast s tid opts"
  by (simp add: getToast_def getContainer_def isAnyContainerMounted_def)

lemma getToast_mounted_a:
  "getToast mounted (JStr ''a'') opts =
     (if truthy (get_prop opts ''containerId'') \<and> get_prop opts ''containerId'' \<noteq> JStr ''box''
      then None else Some hello_rec)"
  by (simp add: getToast_def getContainer_def isAnyContainerMounted_def mounted_containers
      mounted_fields) (simp add: box_def)

lemma getToast_mounted2_m: "getToast mounted2 (JStr ''m'') Map.empty = Some moved_rec"
  by (simp add: getToast_def getContainer_def isAnyContainerMounted_def mounted2_fields)
     (simp add: box2_def)

lemma getToast_mounted2_m_zero:
  "getToast mounted2 (JStr ''m'') [''toastId'' \<mapsto> JNum 0] = Some moved_rec"
  by (simp add: getToast_def getContainer_def isAnyContainerMounted_def mounted2_fields)
     (simp add: box2_def)

text \<open>
  What the deferred body of \<^verbatim>\<open>update\<close> does when the record is found: a container
  is mounted, so the dispatch is an \<^verbatim>\<open>emit\<close>.
\<close>

lemma update_tick_found:
  assumes "getToast s toastId opts = Some t"
  defines "cont \<equiv> (if get_prop (toast_options t ++ opts) ''render'' \<noteq> JUndefined
                      then get_prop (toast_options t ++ opts) ''render'' else toast_content t)"
  shows "update_tick E s toastId opts =
     (if js_or (get_prop opts ''toastId'') toastId = toastId
      then s\<lparr>generated := Suc (generated s),
             emitted := emitted s @ [(JStr ''show'', [Val cont,
               Opts (((toast_options t ++ opts)(''toastId'' \<mapsto> toastId,
                      ''updateId'' \<mapsto> JStr (random_id E (generated s))))(''render'' := None))])]\<rparr>
      else s\<lparr>emitted := emitted s @ [(JStr ''show'', [Val cont,
               Opts (((toast_options t ++ opts)(''toastId'' \<mapsto> get_prop opts ''toastId'',
                      ''staleToastId'' \<mapsto> toastId))(''render'' := None))])]\<rparr>)"
proof -
  have m: "isAnyContainerMounted s" using assms(1) by (rule getToast_mounted)
  have cond: "(\<not> truthy (get_prop opts ''toastId'') \<or> strict_eq (get_prop opts ''toastId'') toastId)
       \<longleftrightarrow> js_or (get_prop opts ''toastId'') toastId = toastId"
    by (cases "get_prop opts ''toastId''") (auto simp: js_or_def strict_eq_def)
  show ?thesis
  proof (cases "js_or (get_prop opts ''toastId'') toastId = toastId")
    case True
    with cond
    have c: "\<not> truthy (get_prop opts ''toastId'') \<or> strict_eq (get_prop opts ''toastId'') toastId"
      by simp
    show ?thesis using assms m True c
      by (simp add: update_tick_def generateToastId_def dispatchToast_def Let_def emit_def
          isAnyContainerMounted_def)
  next
    case False
    with cond
    have c: "\<not> (\<not> truthy (get_prop opts ''toastId'') \<or> strict_eq (get_prop opts ''toastId'') toastId)"
      by simp
    then have j: "js_or (get_prop opts ''toastId'') toastId = get_prop opts ''toastId''"
      by (simp add: js_or_def)
    show ?thesis using assms m False c j
      by (simp add: update_tick_def generateToastId_def dispatchToast_def Let_def emit_def
          isAnyContainerMounted_def)
  qed
qed

lemma toast_of_type_unmounted:
  assumes "containers s = []"
  shows "queue (snd (toast_of_type ty E s cont opts))
           = queue s @ [show_entry (ty, cont, opts) (fst (toast_of_type ty E s cont opts))]"
    and "containers (snd (toast_of_type ty E s cont opts)) = []"
    and "emitted (snd (toast_of_type ty E s cont opts)) = emitted s"
  using assms
  by (auto simp: toast_of_type_def mergeOptions_def getToastId_def generateToastId_def
      dispatchToast_def isAnyContainerMounted_def Let_def
      split: option.splits prod.splits)

lemma toast_calls_unmounted:
  "containers s = [] \<Longrightarrow>
   queue (snd (toast_calls E s cs))
     = queue s @ map (\<lambda>(c, tid). show_entry c tid) (zip cs (fst (toast_calls E s cs))) \<and>
   length (fst (toast_calls E s cs)) = length cs \<and>
   containers (snd (toast_calls E s cs)) = [] \<and>
   emitted (snd (toast_calls E s cs)) = emitted s"
proof (induction cs arbitrary: s)
  case Nil
  then show ?case by simp
next
  case (Cons c cs)
  obtain ty cont opts where c: "c = (ty, cont, opts)" by (cases c)
  let ?s1 = "snd (toast_of_type ty E s cont opts)"
  from Cons.prems have s1: "containers ?s1 = []" by (rule toast_of_type_unmounted)
  from Cons.IH [OF s1] toast_of_type_unmounted [OF Cons.prems, of ty E cont opts]
  show ?case
    by (simp add: c split_beta Let_def)
qed

lemma fold_emit:
  "fold (\<lambda>item st. emit (action item) [Val (content item), Opts (options item)] st) q s
     = s\<lparr>emitted := emitted s @ map entry_event q\<rparr>"
  by (induction q arbitrary: s) (simp_all add: emit_def entry_event_def)

lemma on_DID_MOUNT_replays:
  "emitted (on_DID_MOUNT s ci) = emitted s @ map entry_event (queue s)"
  "queue (on_DID_MOUNT s ci) = []"
  "containers (on_DID_MOUNT s ci) \<noteq> []"
  by (simp_all add: on_DID_MOUNT_def Let_def fold_emit)

lemma queue_inv_step: "queue_inv s \<Longrightarrow> queue_inv (step E s x)"
proof (cases x)
  case (Show ty cont opts)
  assume "queue_inv s"
  then show ?thesis
    by (auto simp: Show queue_inv_def toast_of_type_def mergeOptions_def getToastId_def
        generateToastId_def dispatchToast_def isAnyContainerMounted_def Let_def emit_def
        split: option.splits prod.splits)
next
  case Tick
  assume i: "queue_inv s"
  show ?thesis
  proof (cases "timers s")
    case Nil
    with i show ?thesis by (simp add: Tick run_timer_def)
  next
    case (Cons p rest)
    obtain tid opts where p: "p = (tid, opts)" by (cases p)
    let ?s0 = "s\<lparr>timers := rest\<rparr>"
    have i0: "queue_inv ?s0" using i by (simp add: queue_inv_def)
    have "queue_inv (update_tick E ?s0 tid opts)"
    proof (cases "getToast ?s0 tid opts")
      case None
      with i0 show ?thesis by (simp add: update_tick_def)
    next
      case (Some t)
      then have m: "isAnyContainerMounted ?s0" by (rule getToast_mounted)
      with i0 Some show ?thesis
        by (auto simp: update_tick_def queue_inv_def dispatchToast_def generateToastId_def
            Let_def emit_def isAnyContainerMounted_def split: prod.splits)
    qed
    then show ?thesis by (simp add: Tick run_timer_def Cons p)
  qed
next
  case (Unmount ci)
  assume "queue_inv s"
  then show ?thesis
    by (auto simp: Unmount queue_inv_def on_WILL_UNMOUNT_def Let_def bus_off_def AList.delete_eq
        split: option.splits)
qed (auto simp: queue_inv_def toast_dismiss_def emit_def toast_update_def toast_done_def
      toast_onChange_def bus_on_def toast_configure_def on_DID_MOUNT_replays)

lemma queue_inv_steps: "queue_inv s \<Longrightarrow> queue_inv (foldl (step E) s xs)"
  by (induction xs arbitrary: s) (simp_all add: queue_inv_step)

lemma two_calls_ids: "fst (toast_calls env0 init two_calls) = [JStr ''a'', JStr ''g'']"
  by (simp add: two_calls_def toast_of_type_def mergeOptions_def getToastId_def
      generateToastId_def dispatchToast_def isAnyContainerMounted_def Let_def
      opt_prop_def js_or_def spread_def init_def env0_def split_beta)

section \<open>Queued shows are replayed at the first mount\<close>

text \<open>
  Claim C1. Show calls issued while no container is registered emit nothing; each adds
  one entry with its content and its options to the end of the queue, in call order.
  When a container then registers, the entries are emitted through the bus in that
  order, each once, and the queue is empty afterwards, so that a later mount replays
  nothing.
\<close>

theorem queued_shows_replayed_in_order:
  assumes "containers s = []"
  shows "queue (snd (toast_calls E s cs))
           = queue s @ map (\<lambda>(c, tid). show_entry c tid) (zip cs (fst (toast_calls E s cs))) \<and>
         length (fst (toast_calls E s cs)) = length cs \<and>
         emitted (snd (toast_calls E s cs)) = emitted s \<and>
         emitted (on_DID_MOUNT (snd (toast_calls E s cs)) ci)
           = emitted s @ map entry_event (queue s)
               @ map (\<lambda>(c, tid). entry_event (show_entry c tid))
                   (zip cs (fst (toast_calls E s cs))) \<and>
         queue (on_DID_MOUNT (snd (toast_calls E s cs)) ci) = [] \<and>
         emitted (on_DID_MOUNT (on_DID_MOUNT (snd (toast_calls E s cs)) ci) cj)
           = emitted (on_DID_MOUNT (snd (toast_calls E s cs)) ci)"
  using toast_calls_unmounted [OF assms, of E cs]
  by (simp add: on_DID_MOUNT_replays split_beta comp_def)

theorem queued_shows_replayed_in_order_witness:
  "containers init = [] \<and>
   length (queue (snd (toast_calls env0 init two_calls))) = 2 \<and>
   map event_content (emitted (on_DID_MOUNT (snd (toast_calls env0 init two_calls)) box))
     = [JStr ''hi'', JStr ''yo''] \<and>
   map (\<lambda>ev. get_prop (event_options ev) ''toastId'')
       (emitted (on_DID_MOUNT (snd (toast_calls env0 init two_calls)) box))
     = [JStr ''a'', JStr ''g''] \<and>
   map (\<lambda>ev. get_prop (event_options ev) ''type'')
       (emitted (on_DID_MOUNT (snd (toast_calls env0 init two_calls)) box))
     = [JStr ''default'', JStr ''success''] \<and>
   queue (on_DID_MOUNT (snd (toast_calls env0 init two_calls)) box) = []"
  using queued_shows_replayed_in_order [of init env0 two_calls box box]
  by (simp add: init_fields two_calls_ids)
     (simp add: two_calls_def entry_event_def opt_prop_def js_or_def spread_def)

section \<open>Updates of records that exist\<close>

text \<open>
  Claim C2, as amended. When \<^verbatim>\<open>update(id, options)\<close> finds the record, it emits one
  show event and enqueues nothing. The target identifier is
  \<^verbatim>\<open>options.toastId || id\<close>, and the dispatched options carry it as
  \<^verbatim>\<open>toastId\<close>. If the target equals \<^verbatim>\<open>id\<close>, the options carry the freshly
  generated \<^verbatim>\<open>updateId\<close> and the update adds no \<^verbatim>\<open>staleToastId\<close>: that key
  is as the merge of the old and the new options has it. Otherwise the options carry
  \<^verbatim>\<open>staleToastId = id\<close>, and the target is the new identifier.
\<close>

theorem update_found_stamps:
  assumes "getToast s toastId opts = Some t"
  shows "(let s' = update_tick E s toastId opts;
              ev = last (emitted s');
              dispatched = event_options ev;
              target = js_or (get_prop opts ''toastId'') toastId
          in emitted s' \<noteq> [] \<and> butlast (emitted s') = emitted s \<and>
             fst ev = JStr ''show'' \<and> queue s' = queue s \<and>
             get_prop dispatched ''toastId'' = target \<and>
             (if target = toastId
              then dispatched ''updateId'' = Some (JStr (random_id E (generated s))) \<and>
                   dispatched ''staleToastId'' = (toast_options t ++ opts) ''staleToastId''
              else dispatched ''staleToastId'' = Some toastId))"
proof (cases "js_or (get_prop opts ''toastId'') toastId = toastId")
  case True
  then show ?thesis
    using update_tick_found [OF assms, of E] by simp
next
  case False
  then have j: "js_or (get_prop opts ''toastId'') toastId = get_prop opts ''toastId''"
    by (simp add: js_or_def split: if_splits)
  from False show ?thesis
    using update_tick_found [OF assms, of E] by (simp add: j)
qed

theorem update_found_stamps_witness:
  "getToast mounted (JStr ''a'') [''toastId'' \<mapsto> JStr ''b''] = Some hello_rec \<and>
   event_options (last (emitted (update_tick env0 mounted (JStr ''a'') [''toastId'' \<mapsto> JStr ''b''])))
      ''staleToastId'' = Some (JStr ''a'') \<and>
   get_prop (event_options (last (emitted (update_tick env0 mounted (JStr ''a'') [''toastId'' \<mapsto> JStr ''b'']))))
      ''toastId'' = JStr ''b'' \<and>
   event_options (last (emitted (update_tick env0 mounted (JStr ''a'') [''autoClose'' \<mapsto> JNum 5000])))
      ''updateId'' = Some (JStr ''g'') \<and>
   event_options (last (emitted (update_tick env0 mounted (JStr ''a'') [''autoClose'' \<mapsto> JNum 5000])))
      ''staleToastId'' = None"
  using update_found_stamps [of mounted "JStr ''a''" "[''toastId'' \<mapsto> JStr ''b'']" hello_rec env0]
    update_found_stamps [of mounted "JStr ''a''" "[''autoClose'' \<mapsto> JNum 5000]" hello_rec env0]
  by (simp add: getToast_mounted_a js_or_def Let_def env0_def mounted_fields hello_rec_def)

text \<open>
  Claim C2 in the specification's wording fails twice. With \<^verbatim>\<open>options.toastId = 0\<close>
  the target \<^verbatim>\<open>0 ?? "a"\<close> would be \<^verbatim>\<open>0\<close>, but the code dispatches under
  \<^verbatim>\<open>"a"\<close>. And an in-place update of a record whose options hold a
  \<^verbatim>\<open>staleToastId\<close> dispatches options that still hold it.
\<close>

theorem update_nullish_counterexample:
  "\<not> update_stamps_spec env0 mounted (JStr ''a'') [''toastId'' \<mapsto> JNum 0]
       (event_options (last (emitted
          (update_tick env0 mounted (JStr ''a'') [''toastId'' \<mapsto> JNum 0])))) \<and>
   \<not> update_stamps_spec env0 mounted2 (JStr ''m'') Map.empty
       (event_options (last (emitted (update_tick env0 mounted2 (JStr ''m'') Map.empty))))"
  using update_tick_found [of mounted "JStr ''a''" "[''toastId'' \<mapsto> JNum 0]" hello_rec env0]
    update_tick_found [of mounted2 "JStr ''m''" Map.empty moved_rec env0]
  by (simp add: getToast_mounted_a getToast_mounted2_m js_or_def Let_def env0_def
      mounted_fields mounted2_fields update_stamps_spec_def nullish_or_def
      hello_rec_def moved_rec_def)

text \<open>
  Claim C10, as amended. When \<^verbatim>\<open>options.toastId\<close> is the number 0 or the empty
  string and the record exists, the dispatched options keep the original identifier
  and carry the freshly generated \<^verbatim>\<open>updateId\<close>; the update does not set
  \<^verbatim>\<open>staleToastId\<close>, which stays as the merge of the old and the new options has
  it (absent when neither holds one).
\<close>

theorem update_falsy_target_in_place:
  assumes "getToast s toastId opts = Some t"
    and "get_prop opts ''toastId'' = JNum 0 \<or> get_prop opts ''toastId'' = JStr []"
  shows "(let s' = update_tick E s toastId opts;
              ev = last (emitted s');
              dispatched = event_options ev
          in emitted s' \<noteq> [] \<and> butlast (emitted s') = emitted s \<and>
             fst ev = JStr ''show'' \<and>
             get_prop dispatched ''toastId'' = toastId \<and>
             dispatched ''updateId'' = Some (JStr (random_id E (generated s))) \<and>
             dispatched ''staleToastId'' = (toast_options t ++ opts) ''staleToastId'')"
proof -
  from assms(2) have "js_or (get_prop opts ''toastId'') toastId = toastId"
    by (auto simp: js_or_def)
  then show ?thesis
    using update_tick_found [OF assms(1), of E] by simp
qed

theorem update_falsy_target_in_place_witness:
  "getToast mounted (JStr ''a'') [''toastId'' \<mapsto> JNum 0] = Some hello_rec \<and>
   get_prop (event_options (last (emitted (update_tick env0 mounted (JStr ''a'') [''toastId'' \<mapsto> JNum 0]))))
      ''toastId'' = JStr ''a'' \<and>
   event_options (last (emitted (update_tick env0 mounted (JStr ''a'') [''toastId'' \<mapsto> JNum 0])))
      ''updateId'' = Some (JStr ''g'') \<and>
   event_options (last (emitted (update_tick env0 mounted (JStr ''a'') [''toastId'' \<mapsto> JStr ''''])))
      ''staleToastId'' = None"
  using update_falsy_target_in_place [of mounted "JStr ''a''" "[''toastId'' \<mapsto> JNum 0]" hello_rec env0]
    update_falsy_target_in_place [of mounted "JStr ''a''" "[''toastId'' \<mapsto> JStr '''']" hello_rec env0]
  by (simp add: getToast_mounted_a Let_def env0_def mounted_fields hello_rec_def)

text \<open>
  Claim C10 in its own wording fails when the stored options already hold a
  \<^verbatim>\<open>staleToastId\<close>: \<^verbatim>\<open>update("m", {toastId: 0})\<close> on such a record keeps the
  identifier \<^verbatim>\<open>"m"\<close> and sets the \<^verbatim>\<open>updateId\<close>, but the dispatched options
  still hold \<^verbatim>\<open>staleToastId = "old"\<close>.
\<close>

theorem update_falsy_stale_kept_counterexample:
  "get_prop [''toastId'' \<mapsto> JNum 0] ''toastId'' = JNum 0 \<and>
   getToast mounted2 (JStr ''m'') [''toastId'' \<mapsto> JNum 0] = Some moved_rec \<and>
   event_options (last (emitted
       (update_tick env0 mounted2 (JStr ''m'') [''toastId'' \<mapsto> JNum 0]))) ''staleToastId''
     = Some (JStr ''old'') \<and>
   \<not> falsy_update_spec env0 mounted2 (JStr ''m'')
       (event_options (last (emitted
          (update_tick env0 mounted2 (JStr ''m'') [''toastId'' \<mapsto> JNum 0]))))"
  using update_tick_found [of mounted2 "JStr ''m''" "[''toastId'' \<mapsto> JNum 0]" moved_rec env0]
  by (simp add: getToast_mounted2_m_zero js_or_def env0_def mounted2_fields
      falsy_update_spec_def moved_rec_def)

text \<open>
  Claim C8. \<^verbatim>\<open>done(id)\<close> is \<^verbatim>\<open>update(id, {progress: 1})\<close>: the two calls give the
  same state, in which nothing has been emitted or enqueued yet and one more timer is
  pending. When that timer fires and the record exists, one show event is emitted,
  under the same identifier and with \<^verbatim>\<open>progress\<close> equal to 1.
\<close>

theorem done_is_update_progress_1:
  "toast_done s tid = toast_update s tid (Some [''progress'' \<mapsto> JNum 1]) \<and>
   timers (toast_done s tid) = timers s @ [(tid, [''progress'' \<mapsto> JNum 1])] \<and>
   emitted (toast_done s tid) = emitted s \<and> queue (toast_done s tid) = queue s \<and>
   (timers s = [] \<longrightarrow> getToast s tid [''progress'' \<mapsto> JNum 1] = Some t \<longrightarrow>
      (let s' = run_timer E (toast_done s tid); ev = last (emitted s')
       in emitted s' \<noteq> [] \<and> butlast (emitted s') = emitted s \<and> fst ev = JStr ''show'' \<and>
          get_prop (event_options ev) ''progress'' = JNum 1 \<and>
          get_prop (event_options ev) ''toastId'' = tid))"
proof -
  have d: "toast_done s tid = toast_update s tid (Some [''progress'' \<mapsto> JNum 1])"
    by (simp add: toast_done_def)
  have u: "timers (toast_update s tid (Some [''progress'' \<mapsto> JNum 1]))
             = timers s @ [(tid, [''progress'' \<mapsto> JNum 1])]"
    "emitted (toast_update s tid (Some [''progress'' \<mapsto> JNum 1])) = emitted s"
    "queue (toast_update s tid (Some [''progress'' \<mapsto> JNum 1])) = queue s"
    by (simp_all add: toast_update_def spread_def)
  have r: "(let s' = run_timer E (toast_done s tid); ev = last (emitted s')
       in emitted s' \<noteq> [] \<and> butlast (emitted s') = emitted s \<and> fst ev = JStr ''show'' \<and>
          get_prop (event_options ev) ''progress'' = JNum 1 \<and>
          get_prop (event_options ev) ''toastId'' = tid)"
    if t: "timers s = []" and g: "getToast s tid [''progress'' \<mapsto> JNum 1] = Some t"
  proof -
    let ?s0 = "s\<lparr>timers := timers s @ [(tid, [''progress'' \<mapsto> JNum 1])], timers := []\<rparr>"
    have run: "run_timer E (toast_done s tid) = update_tick E ?s0 tid [''progress'' \<mapsto> JNum 1]"
      using t by (simp add: d run_timer_def toast_update_def spread_def)
    have "getToast ?s0 tid [''progress'' \<mapsto> JNum 1] = Some t"
      using g getToast_cong [of ?s0 s tid "[''progress'' \<mapsto> JNum 1]"] by simp
    from update_tick_found [OF this, of E] show ?thesis
      unfolding run by (simp add: js_or_def)
  qed
  show ?thesis using d u r by simp
qed

theorem done_is_update_progress_1_witness:
  "getToast mounted (JStr ''a'') [''progress'' \<mapsto> JNum 1] = Some hello_rec \<and>
   timers mounted = [] \<and>
   get_prop (event_options (last (emitted (run_timer env0 (toast_done mounted (JStr ''a''))))))
     ''progress'' = JNum 1 \<and>
   toast_done mounted (JStr ''a'')
     = toast_update mounted (JStr ''a'') (Some [''progress'' \<mapsto> JNum 1])"
proof -
  have g: "getToast mounted (JStr ''a'') [''progress'' \<mapsto> JNum 1] = Some hello_rec"
    by (simp add: getToast_mounted_a)
  have t: "timers mounted = []" by (simp add: mounted_fields)
  show ?thesis
    using done_is_update_progress_1 [of mounted "JStr ''a''" hello_rec env0] g t
    unfolding Let_def by blast
qed

section \<open>Identifier resolution\<close>

text \<open>
  Claim C3, as amended. \<^verbatim>\<open>toast(content, options)\<close> and every type shortcut return
  the caller's \<^verbatim>\<open>options.toastId\<close> when it is a string (the empty string included)
  or a number other than \<^verbatim>\<open>NaN\<close>, and the freshly generated identifier otherwise,
  in every state: whether the dispatch is emitted or enqueued.
\<close>

theorem toast_returns_resolved_id:
  "fst (toast_of_type ty E s cont opts) =
     (if is_string (opt_prop opts ''toastId'') \<or>
         (is_number (opt_prop opts ''toastId'') \<and> opt_prop opts ''toastId'' \<noteq> JNaN)
      then opt_prop opts ''toastId''
      else JStr (random_id E (generated s))) \<and>
   fst (toast E s cont opts) = fst (toast_of_type ty E s cont opts)"
  by (auto simp: toast_def toast_of_type_def mergeOptions_def getToastId_def generateToastId_def
      dispatchToast_def Let_def opt_prop_def isNaN_def
      split: option.splits prod.splits)

theorem toast_returns_resolved_id_witness:
  "fst (toast env0 init (JStr ''hi'') (Some [''toastId'' \<mapsto> JNum 7])) = JNum 7 \<and>
   fst (toast env0 mounted (JStr ''hi'') (Some [''toastId'' \<mapsto> JStr ''a''])) = JStr ''a'' \<and>
   fst (toast env0 init (JStr ''hi'') (Some [''toastId'' \<mapsto> JNaN])) = JStr ''g'' \<and>
   fst (toast env0 mounted (JStr ''hi'') None) = JStr ''g''"
  using toast_returns_resolved_id [of "JStr ''default''" env0 init "JStr ''hi''" "Some [''toastId'' \<mapsto> JNum 7]"]
    toast_returns_resolved_id [of "JStr ''default''" env0 mounted "JStr ''hi''" "Some [''toastId'' \<mapsto> JStr ''a'']"]
    toast_returns_resolved_id [of "JStr ''default''" env0 init "JStr ''hi''" "Some [''toastId'' \<mapsto> JNaN]"]
    toast_returns_resolved_id [of "JStr ''default''" env0 mounted "JStr ''hi''" None]
  by (simp add: opt_prop_def env0_def init_fields mounted_fields)

text \<open>
  Claim C3 in the specification's wording fails for the empty string: the code returns
  the empty string, the specification's rule a generated identifier.
\<close>

theorem toast_empty_string_id_counterexample:
  "fst (toast env0 init (JStr ''hi'') (Some [''toastId'' \<mapsto> JStr ''''])) = JStr '''' \<and>
   resolve_spec env0 init (Some [''toastId'' \<mapsto> JStr '''']) = JStr ''g'' \<and>
   fst (toast env0 init (JStr ''hi'') (Some [''toastId'' \<mapsto> JStr '''']))
     \<noteq> resolve_spec env0 init (Some [''toastId'' \<mapsto> JStr ''''])"
  by (simp add: toast_def toast_of_type_def mergeOptions_def getToastId_def generateToastId_def
      dispatchToast_def Let_def opt_prop_def isNaN_def resolve_spec_def
      caller_id_accepted_spec_def env0_def init_def)

section \<open>Queries and dismissal\<close>

text \<open>
  Claim C4. \<^verbatim>\<open>isActive(id)\<close> is false whenever the registry is empty, and it is
  true exactly when some registered container answers true to \<^verbatim>\<open>isToastActive(id)\<close>.
\<close>

theorem isActive_iff:
  "(containers s = [] \<longrightarrow> \<not> toast_isActive s tid) \<and>
   (toast_isActive s tid \<longleftrightarrow> (\<exists>(k, c) \<in> set (containers s). isToastActive c tid))"
  by (auto simp: toast_isActive_def fold_isActive)

theorem isActive_iff_witness:
  "toast_isActive mounted (JStr ''a'') \<and> \<not> toast_isActive mounted (JStr ''b'') \<and>
   \<not> toast_isActive init (JStr ''a'')"
  using isActive_iff [of mounted "JStr ''a''"] isActive_iff [of mounted "JStr ''b''"]
    isActive_iff [of init "JStr ''a''"]
  by (simp add: mounted_containers) (simp add: init_def box_def)

text \<open>
  Claim C5. \<^verbatim>\<open>dismiss(id?)\<close> emits \<^verbatim>\<open>'clear'\<close> with its argument when a container
  is registered, and only then; with an empty registry it changes nothing, and it
  never touches the pending queue.
\<close>

theorem dismiss_emits_iff_mounted:
  "(containers s \<noteq> [] \<longrightarrow>
      toast_dismiss s tid = s\<lparr>emitted := emitted s @ [(JStr ''clear'', [Val tid])]\<rparr>) \<and>
   (containers s = [] \<longrightarrow> toast_dismiss s tid = s) \<and>
   queue (toast_dismiss s tid) = queue s"
  by (simp add: toast_dismiss_def isAnyContainerMounted_def emit_def)

theorem dismiss_emits_iff_mounted_witness:
  "emitted (toast_dismiss mounted (JStr ''a'')) = [(JStr ''clear'', [Val (JStr ''a'')])] \<and>
   emitted (toast_dismiss mounted JUndefined) = [(JStr ''clear'', [Val JUndefined])] \<and>
   toast_dismiss init (JStr ''a'') = init"
  using dismiss_emits_iff_mounted [of mounted "JStr ''a''"]
    dismiss_emits_iff_mounted [of mounted JUndefined]
    dismiss_emits_iff_mounted [of init "JStr ''a''"]
  by (simp add: mounted_containers mounted_fields init_fields)

section \<open>Updates of records that do not exist\<close>

text \<open>
  Claim C6. When \<^verbatim>\<open>getToast\<close> finds no record under the identifier in the container
  that \<^verbatim>\<open>options.containerId\<close> selects (in particular when the registry is empty),
  the deferred body of \<^verbatim>\<open>update\<close> leaves the whole state as it is: nothing is
  emitted, nothing is enqueued, no error arises. With no other timer pending, the
  call followed by its tick gives back the state before the call.
\<close>

theorem update_absent_noop:
  assumes "containers s = [] \<or> getToast s tid (spread opts) = None"
  shows "update_tick E s tid (spread opts) = s \<and>
         (timers s = [] \<longrightarrow> run_timer E (toast_update s tid opts) = s)"
proof -
  from assms have none: "getToast s tid (spread opts) = None"
    using getToast_empty by blast
  have tick: "update_tick E s' tid (spread opts) = s'"
    if "containers s' = containers s" "latestInstance s' = latestInstance s" for s'
  proof -
    have "getToast s' tid (spread opts) = getToast s tid (spread opts)"
      using that by (rule getToast_cong)
    with none show ?thesis by (simp add: update_tick_def)
  qed
  have "update_tick E s tid (spread opts) = s"
    by (rule tick) simp_all
  moreover have "run_timer E (toast_update s tid opts) = s" if "timers s = []"
  proof -
    have "run_timer E (toast_update s tid opts)
            = update_tick E (s\<lparr>timers := timers s @ [(tid, spread opts)], timers := []\<rparr>)
                tid (spread opts)"
      using that by (simp add: run_timer_def toast_update_def)
    also have "\<dots> = s\<lparr>timers := timers s @ [(tid, spread opts)], timers := []\<rparr>"
      by (rule tick) simp_all
    also have "\<dots> = s" using that by simp
    finally show ?thesis .
  qed
  ultimately show ?thesis by blast
qed

theorem update_absent_noop_witness:
  "getToast mounted (JStr ''zz'') Map.empty = None \<and>
   update_tick env0 mounted (JStr ''zz'') Map.empty = mounted \<and>
   run_timer env0 (toast_update mounted (JStr ''zz'') None) = mounted \<and>
   run_timer env0 (toast_update init (JStr ''a'') (Some [''progress'' \<mapsto> JNum 1])) = init"
proof -
  have g: "getToast mounted (JStr ''zz'') (spread None) = None"
    by (simp add: getToast_def getContainer_def isAnyContainerMounted_def mounted_containers
        mounted_fields spread_def) (simp add: box_def)
  show ?thesis
    using update_absent_noop [of mounted "JStr ''zz''" None env0, OF disjI2, OF g]
      update_absent_noop [of init "JStr ''a''" "Some [''progress'' \<mapsto> JNum 1]" env0, OF disjI1]
      g by (simp add: spread_def mounted_fields init_fields)
qed

section \<open>Unmounting\<close>

text \<open>
  Claim C7. An unmount event that carries a container instance removes the registry
  entry under that container's key and no other; an event that carries none clears
  the registry; and whenever the registry is empty afterwards, the bus has no
  listener left for \<^verbatim>\<open>ACTION.SHOW\<close> and none for \<^verbatim>\<open>ACTION.CLEAR\<close>.
\<close>

theorem unmount_registry:
  "containers (snd (on_WILL_UNMOUNT E s (Some c)))
     = filter (\<lambda>(k, v). k \<noteq> container_key c) (containers s) \<and>
   containers (snd (on_WILL_UNMOUNT E s None)) = [] \<and>
   (containers (snd (on_WILL_UNMOUNT E s ci)) = [] \<longrightarrow>
      listeners (snd (on_WILL_UNMOUNT E s ci)) (ACTION_SHOW E) = [] \<and>
      listeners (snd (on_WILL_UNMOUNT E s ci)) (ACTION_CLEAR E) = [])"
proof -
  have c: "containers (snd (on_WILL_UNMOUNT E s ci))
             = (case ci of Some c \<Rightarrow> AList.delete (container_key c) (containers s) | None \<Rightarrow> [])"
    for ci
    by (simp add: on_WILL_UNMOUNT_def Let_def bus_off_def split: option.splits)
  have l: "listeners (snd (on_WILL_UNMOUNT E s ci)) a = []"
    if "containers (snd (on_WILL_UNMOUNT E s ci)) = []" "a = ACTION_SHOW E \<or> a = ACTION_CLEAR E"
    for a
    using that unfolding c
    by (auto simp add: on_WILL_UNMOUNT_def Let_def bus_off_def split: option.splits)
  show ?thesis
    using c [of "Some c"] c [of None] l by (auto simp add: AList.delete_eq intro: filter_cong)
qed

theorem unmount_registry_witness:
  "listeners listening (ACTION_SHOW env0) = [JFun 7] \<and>
   listeners listening (ACTION_CLEAR env0) = [JFun 8] \<and>
   containers listening = [(JStr ''box'', box)] \<and>
   containers (snd (on_WILL_UNMOUNT env0 listening (Some box))) = [] \<and>
   containers (snd (on_WILL_UNMOUNT env0 listening (Some box2))) = [(JStr ''box'', box)] \<and>
   listeners (snd (on_WILL_UNMOUNT env0 listening (Some box))) (ACTION_SHOW env0) = [] \<and>
   listeners (snd (on_WILL_UNMOUNT env0 listening (Some box))) (ACTION_CLEAR env0) = []"
proof -
  have l: "listeners listening (ACTION_SHOW env0) = [JFun 7]"
    "listeners listening (ACTION_CLEAR env0) = [JFun 8]"
    "containers listening = [(JStr ''box'', box)]"
    by (simp_all add: listening_def bus_on_def env0_def mounted_containers)
       (simp_all add: mounted_def on_DID_MOUNT_def Let_def fold_emit init_def)
  have k: "container_key box = JStr ''box''" "container_key box2 = JObj 2"
    by (simp_all add: container_key_def js_or_def box_def box2_def)
  show ?thesis
    using unmount_registry [of env0 listening box "Some box"]
      unmount_registry [of env0 listening box2 "Some box"]
    by (simp add: l k)
qed

section \<open>The queue is empty while a container is registered\<close>

text \<open>
  Claim C9. The invariant "if a container is registered, the pending queue is empty"
  holds initially, is preserved by every public operation, by a timer firing and by
  the mount and unmount listeners, and so holds after every sequence of them.
\<close>

theorem queue_empty_while_mounted:
  "queue_inv init \<and> (queue_inv s \<longrightarrow> queue_inv (step E s x)) \<and>
   queue_inv (foldl (step E) init xs)"
proof -
  have "queue_inv init" by (simp add: queue_inv_def init_def)
  then show ?thesis using queue_inv_step queue_inv_steps by blast
qed

theorem queue_empty_while_mounted_witness:
  "queue (step env0 init (Show (JStr ''default'') (JStr ''hi'') None)) \<noteq> [] \<and>
   containers (foldl (step env0) init
      [Show (JStr ''default'') (JStr ''hi'') None, Mount box, Show (JStr ''info'') (JStr ''yo'') None])
     \<noteq> [] \<and>
   queue (foldl (step env0) init
      [Show (JStr ''default'') (JStr ''hi'') None, Mount box, Show (JStr ''info'') (JStr ''yo'') None])
     = []"
proof -
  let ?xs = "[Show (JStr ''default'') (JStr ''hi'') None, Mount box,
              Show (JStr ''info'') (JStr ''yo'') None]"
  have q: "queue (step env0 init (Show (JStr ''default'') (JStr ''hi'') None)) \<noteq> []"
    using toast_of_type_unmounted(1) [of init "JStr ''default''" env0 "JStr ''hi''" None]
    by (simp add: init_fields)
  have c: "containers (foldl (step env0) init ?xs) \<noteq> []"
    by (simp add: toast_of_type_def mergeOptions_def getToastId_def generateToastId_def
        dispatchToast_def isAnyContainerMounted_def Let_def emit_def split_beta
        on_DID_MOUNT_replays)
  from queue_empty_while_mounted [of init env0 "Mount box" ?xs] c q
  show ?thesis unfolding queue_inv_def by blast
qed

end
